theory Spec2Isabelle
  imports Main "HOL-Library.Word"
begin

unbundle bit_operations_syntax

section \<open>The 6502 core of \<^verbatim>\<open>src/cpu/cpu.cc\<close>\<close>

text \<open>
  The embedding follows \<^verbatim>\<open>cpu.cc\<close> function by function. C++ \<^verbatim>\<open>uint8_t\<close> is
  \<open>8 word\<close>, \<^verbatim>\<open>uint16_t\<close> is \<open>16 word\<close>; an expression that C++ evaluates in \<^verbatim>\<open>int\<close>
  after integer promotion is computed in \<open>16 word\<close> where its value stays below
  \<open>2 ^ 16\<close> or where only its low byte is kept. Every member function that mutates the
  core takes the state and returns the new one.
\<close>

type_synonym byte = "8 word"
type_synonym addr = "16 word"

subsection \<open>Status word\<close>

text \<open>
  Modelled from the spec: the class \<^verbatim>\<open>Status\<close> (the type of the member \<^verbatim>\<open>p\<close>) is not
  part of \<^verbatim>\<open>cpu.cc\<close>. The status word is the 8-bit value of the data model: bit 7 N,
  bit 6 V, bit 5 unused, bit 4 B, bit 3 D, bit 2 I, bit 1 Z, bit 0 C.
\<close>

type_synonym status = "8 word"

definition set_flag :: "nat \<Rightarrow> bool \<Rightarrow> status \<Rightarrow> status" where
  "set_flag n b p = (if b then set_bit n p else unset_bit n p)"

definition isCarry :: "status \<Rightarrow> bool" where
  "isCarry p = bit p 0"

definition isZero :: "status \<Rightarrow> bool" where
  "isZero p = bit p 1"

definition isInterrupt :: "status \<Rightarrow> bool" where
  "isInterrupt p = bit p 2"

definition isDecimal :: "status \<Rightarrow> bool" where
  "isDecimal p = bit p 3"

definition isBreak :: "status \<Rightarrow> bool" where
  "isBreak p = bit p 4"

definition isOverflow :: "status \<Rightarrow> bool" where
  "isOverflow p = bit p 6"

definition isNegative :: "status \<Rightarrow> bool" where
  "isNegative p = bit p 7"

definition getCarry :: "status \<Rightarrow> addr" where
  "getCarry p = (if isCarry p then 1 else 0)"

text \<open>
  Modelled from the spec: the setters of \<^verbatim>\<open>Status\<close>. Called with an integer
  (\<^verbatim>\<open>p.setNegative (sum)\<close>) they take a value wider than 8 bits: N is bit 7 of the low
  byte, Z is whether the low byte is zero, C is whether the value exceeds \<open>0xFF\<close>.
\<close>

definition setNegative :: "addr \<Rightarrow> status \<Rightarrow> status" where
  "setNegative v p = set_flag 7 (bit v 7) p"

definition setZero :: "addr \<Rightarrow> status \<Rightarrow> status" where
  "setZero v p = set_flag 1 (v AND 0xFF = 0) p"

definition setCarry :: "addr \<Rightarrow> status \<Rightarrow> status" where
  "setCarry v p = set_flag 0 (0xFF < v) p"

text \<open>
  Modelled from the spec: the same setters called with a \<^verbatim>\<open>bool\<close>
  (\<^verbatim>\<open>p.setNegative (data > arg)\<close>, \<^verbatim>\<open>p.setNegative (false)\<close>, \<^verbatim>\<open>p.setOverflow (b)\<close>)
  store the boolean in the flag.
\<close>

definition setNegative_flag :: "bool \<Rightarrow> status \<Rightarrow> status" where
  "setNegative_flag b p = set_flag 7 b p"

definition setZero_flag :: "bool \<Rightarrow> status \<Rightarrow> status" where
  "setZero_flag b p = set_flag 1 b p"

definition setCarry_flag :: "bool \<Rightarrow> status \<Rightarrow> status" where
  "setCarry_flag b p = set_flag 0 b p"

definition setOverflow :: "bool \<Rightarrow> status \<Rightarrow> status" where
  "setOverflow b p = set_flag 6 b p"

text \<open>
  Modelled from the spec: the conversions between \<^verbatim>\<open>Status\<close> and a byte are not part of
  \<^verbatim>\<open>cpu.cc\<close>, which only uses them (\<^verbatim>\<open>mem -> write(s++, p)\<close>, \<^verbatim>\<open>p = mem -> read(s++)\<close>,
  \<^verbatim>\<open>p = 0x00\<close>). Read as a byte, the status word shows B and the unused bit 5 set
  (\<open>P | 0x30\<close>). Assigned a byte, it takes N, V, D, I, Z and C from the byte, keeps the B
  flag it has and sets bit 5: both bits of the byte are ignored.
\<close>

definition status_byte :: "status \<Rightarrow> byte" where
  "status_byte p = p OR 0x30"

definition status_assign :: "byte \<Rightarrow> status \<Rightarrow> status" where
  "status_assign v p = set_flag 5 True (set_flag 4 (isBreak p) v)"

subsection \<open>Bus and memory facade\<close>

text \<open>
  Modelled from the spec: the classes \<^verbatim>\<open>Bus\<close> and \<^verbatim>\<open>Mem\<close> are not part of \<^verbatim>\<open>cpu.cc\<close>.
  The bus is a total map from 16-bit addresses to bytes; every write that is issued is
  also appended to a trace, so that "no write is issued" can be told apart from "a write
  stored the value that was already there".
\<close>

record bus =
  cells :: "addr \<Rightarrow> byte"
  writes :: "(addr \<times> byte) list"

definition mem_read :: "bus \<Rightarrow> addr \<Rightarrow> byte" where
  "mem_read b ad = cells b ad"

definition mem_write :: "bus \<Rightarrow> addr \<Rightarrow> byte \<Rightarrow> bus" where
  "mem_write b ad v = b\<lparr>cells := (cells b)(ad := v), writes := writes b @ [(ad, v)]\<rparr>"

definition read_word_le :: "bus \<Rightarrow> addr \<Rightarrow> addr" where
  "read_word_le b ad = push_bit 8 (ucast (mem_read b (ad + 1))) OR ucast (mem_read b ad)"

text \<open>
  Modelled from the spec: the address helpers of \<^verbatim>\<open>Mem\<close>. Each takes the program
  counter by reference; the model returns the value together with the advanced counter.
  \<open>mem_abs\<close> is \<^verbatim>\<open>abs(pc)\<close>, \<open>mem_abs_idx\<close> is \<^verbatim>\<open>abs(pc, idx)\<close>, \<open>mem_zpg\<close> is \<^verbatim>\<open>zpg(pc)\<close>,
  \<open>mem_zpg_idx\<close> is \<^verbatim>\<open>zpg(pc, idx)\<close>, \<open>mem_indirect\<close> is \<^verbatim>\<open>indirect(pc)\<close> with the
  page-wrap of the pointer's low byte, \<open>mem_indexed_x\<close> is \<^verbatim>\<open>indexed(pc, x)\<close> and
  \<open>mem_indexed\<close> is \<^verbatim>\<open>indexed(pc)\<close>.
\<close>

definition mem_abs :: "bus \<Rightarrow> addr \<Rightarrow> addr \<times> addr" where
  "mem_abs b pc = (read_word_le b pc, pc + 2)"

definition mem_abs_idx :: "bus \<Rightarrow> addr \<Rightarrow> byte \<Rightarrow> addr \<times> addr" where
  "mem_abs_idx b pc idx = (read_word_le b pc + ucast idx, pc + 2)"

definition mem_zpg :: "bus \<Rightarrow> addr \<Rightarrow> addr \<times> addr" where
  "mem_zpg b pc = (ucast (mem_read b pc), pc + 1)"

definition mem_zpg_idx :: "bus \<Rightarrow> addr \<Rightarrow> byte \<Rightarrow> addr \<times> addr" where
  "mem_zpg_idx b pc idx = (ucast (mem_read b pc + idx), pc + 1)"

definition mem_indirect :: "bus \<Rightarrow> addr \<Rightarrow> addr \<times> addr" where
  "mem_indirect b pc =
     (let ptr = read_word_le b pc;
          hi_at = (if ptr AND 0x00FF = 0x00FF then ptr AND 0xFF00 else ptr + 1)
      in (push_bit 8 (ucast (mem_read b hi_at)) OR ucast (mem_read b ptr), pc + 2))"

definition zp_word :: "bus \<Rightarrow> byte \<Rightarrow> addr" where
  "zp_word b ll = push_bit 8 (ucast (mem_read b (ucast (ll + 1)))) OR ucast (mem_read b (ucast ll))"

definition mem_indexed_x :: "bus \<Rightarrow> addr \<Rightarrow> byte \<Rightarrow> addr \<times> addr" where
  "mem_indexed_x b pc x = (zp_word b (mem_read b pc + x), pc + 1)"

definition mem_indexed :: "bus \<Rightarrow> addr \<Rightarrow> addr \<times> addr" where
  "mem_indexed b pc = (zp_word b (mem_read b pc), pc + 1)"

subsection \<open>The register file\<close>

text \<open>
  The members of \<^verbatim>\<open>Cpu\<close> that \<^verbatim>\<open>cpu.cc\<close> uses: \<^verbatim>\<open>a\<close>, \<^verbatim>\<open>x\<close>, \<^verbatim>\<open>y\<close>, \<^verbatim>\<open>s\<close>, \<^verbatim>\<open>p\<close>, \<^verbatim>\<open>pc\<close>,
  \<^verbatim>\<open>op\<close>, the answer of \<^verbatim>\<open>cmd -> isAcc()\<close> for the current command, and the memory
  behind \<^verbatim>\<open>mem\<close>.
\<close>

record cpu =
  reg_a :: byte
  reg_x :: byte
  reg_y :: byte
  reg_s :: byte
  reg_p :: status
  reg_pc :: addr
  reg_op :: addr
  cmd_isAcc :: bool
  mem :: bus

text \<open>
  \<^verbatim>\<open>uint8_t Cpu::read() const\<close> and \<^verbatim>\<open>void Cpu::write (uint8_t data)\<close>; the latter is
  \<open>write_data\<close> here, \<open>write\<close> being a keyword of the theory language.
\<close>

definition read :: "cpu \<Rightarrow> byte" where
  "read st = (if cmd_isAcc st then reg_a st else mem_read (mem st) (reg_op st))"

definition write_data :: "byte \<Rightarrow> cpu \<Rightarrow> cpu" where
  "write_data data st =
     (if cmd_isAcc st then st\<lparr>reg_a := data\<rparr>
      else st\<lparr>mem := mem_write (mem st) (reg_op st) data\<rparr>)"

text \<open>
  \<^verbatim>\<open>void Cpu::reset ()\<close>: every register is assigned a literal zero; for \<^verbatim>\<open>p\<close> that is
  the assignment of the byte \<open>0x00\<close> to the status word.
\<close>

definition reset :: "cpu \<Rightarrow> cpu" where
  "reset st = st\<lparr>reg_x := 0x00, reg_y := 0x00, reg_p := status_assign 0x00 (reg_p st),
                 reg_s := 0x00,
                 reg_a := 0x00, reg_pc := 0x0000\<rparr>"

subsection \<open>Addressing-mode resolvers\<close>

definition IMM :: "cpu \<Rightarrow> cpu" where
  "IMM st = st\<lparr>reg_op := reg_pc st, reg_pc := reg_pc st + 1\<rparr>"

definition ABS :: "cpu \<Rightarrow> cpu" where
  "ABS st = (case mem_abs (mem st) (reg_pc st) of
               (w, pc') \<Rightarrow> st\<lparr>reg_pc := pc', reg_op := w\<rparr>)"

definition ABSX :: "cpu \<Rightarrow> cpu" where
  "ABSX st = (case mem_abs_idx (mem st) (reg_pc st) (reg_x st) of
                (w, pc') \<Rightarrow> st\<lparr>reg_pc := pc', reg_op := w\<rparr>)"

definition ABSY :: "cpu \<Rightarrow> cpu" where
  "ABSY st = (case mem_abs_idx (mem st) (reg_pc st) (reg_y st) of
                (w, pc') \<Rightarrow> st\<lparr>reg_pc := pc', reg_op := w\<rparr>)"

definition ZPG :: "cpu \<Rightarrow> cpu" where
  "ZPG st = (case mem_zpg (mem st) (reg_pc st) of
               (w, pc') \<Rightarrow> st\<lparr>reg_pc := pc', reg_op := w\<rparr>)"

definition ZPGX :: "cpu \<Rightarrow> cpu" where
  "ZPGX st = (case mem_zpg_idx (mem st) (reg_pc st) (reg_x st) of
                (w, pc') \<Rightarrow> st\<lparr>reg_pc := pc', reg_op := w\<rparr>)"

definition ZPGY :: "cpu \<Rightarrow> cpu" where
  "ZPGY st = (case mem_zpg_idx (mem st) (reg_pc st) (reg_y st) of
                (w, pc') \<Rightarrow> st\<lparr>reg_pc := pc', reg_op := w\<rparr>)"

definition IMP :: "cpu \<Rightarrow> cpu" where
  "IMP st = st"

definition ACC :: "cpu \<Rightarrow> cpu" where
  "ACC st = st\<lparr>reg_op := ucast (reg_a st)\<rparr>"

definition IND :: "cpu \<Rightarrow> cpu" where
  "IND st = (case mem_indirect (mem st) (reg_pc st) of
               (w, pc') \<Rightarrow> st\<lparr>reg_pc := pc', reg_op := w\<rparr>)"

definition INDX :: "cpu \<Rightarrow> cpu" where
  "INDX st = (case mem_indexed_x (mem st) (reg_pc st) (reg_x st) of
                (w, pc') \<Rightarrow> st\<lparr>reg_pc := pc', reg_op := w\<rparr>)"

text \<open>
  \<^verbatim>\<open>auto index = mem -> indexed(pc); op = 0x00FF & (index + y);\<close> The sum is an \<^verbatim>\<open>int\<close> in
  C++; the mask keeps its low byte, which is the low byte of the 16-bit sum.
\<close>

definition INDY :: "cpu \<Rightarrow> cpu" where
  "INDY st = (case mem_indexed (mem st) (reg_pc st) of
                (index, pc') \<Rightarrow>
                  st\<lparr>reg_pc := pc', reg_op := 0x00FF AND (index + ucast (reg_y st))\<rparr>)"

definition REL :: "cpu \<Rightarrow> cpu" where
  "REL st = IMM st"

subsection \<open>Operations\<close>

text \<open>
  \<^verbatim>\<open>void Cpu::ADC (uint8_t arg)\<close>. The sum of two bytes and the carry is at most 511, so
  the \<^verbatim>\<open>uint16_t\<close> holds it exactly. The decimal branch of the source has an empty body.
\<close>

definition ADC_arg :: "byte \<Rightarrow> cpu \<Rightarrow> cpu" where
  "ADC_arg arg st =
     (let sum = ucast (reg_a st) + ucast arg + getCarry (reg_p st);
          st1 = st\<lparr>reg_a := ucast sum\<rparr>;
          st2 = (if isDecimal (reg_p st1) then st1 else st1)
      in st2\<lparr>reg_p := setCarry sum (setZero sum (setNegative sum (reg_p st2)))\<rparr>)"

definition ADC :: "cpu \<Rightarrow> cpu" where
  "ADC st = (let data = read st in ADC_arg data st)"

text \<open>
  \<^verbatim>\<open>void Cpu::CMP(uint8_t arg)\<close>: the register is \<^verbatim>\<open>arg\<close>, the fetched operand is
  \<^verbatim>\<open>data\<close>, and the three setters receive the comparisons as booleans.
\<close>

definition CMP_arg :: "byte \<Rightarrow> cpu \<Rightarrow> cpu" where
  "CMP_arg arg st =
     (let data = read st
      in st\<lparr>reg_p := setCarry_flag (data \<le> arg)
                         (setZero_flag (data = arg)
                           (setNegative_flag (arg < data) (reg_p st)))\<rparr>)"

definition CMP :: "cpu \<Rightarrow> cpu" where
  "CMP st = CMP_arg (reg_a st) st"

definition CPX :: "cpu \<Rightarrow> cpu" where
  "CPX st = CMP_arg (reg_x st) st"

definition CPY :: "cpu \<Rightarrow> cpu" where
  "CPY st = CMP_arg (reg_y st) st"

definition NOP :: "cpu \<Rightarrow> cpu" where
  "NOP st = st"

definition JAM :: "cpu \<Rightarrow> cpu" where
  "JAM st = NOP st"

definition JMP :: "cpu \<Rightarrow> cpu" where
  "JMP st = st\<lparr>reg_pc := reg_op st\<rparr>"

text \<open>
  \<^verbatim>\<open>void Cpu::JSR()\<close>: \<^verbatim>\<open>mem -> write(s++, lo); mem -> write(s++, hi); JMP();\<close> The address
  of each write is the 8-bit \<^verbatim>\<open>s\<close> widened to 16 bits.
\<close>

definition JSR :: "cpu \<Rightarrow> cpu" where
  "JSR st =
     (let lo = (ucast (0x00FF AND reg_pc st) :: byte);
          hi = (ucast (drop_bit 8 (0xFF00 AND reg_pc st)) :: byte);
          st1 = st\<lparr>mem := mem_write (mem st) (ucast (reg_s st)) lo, reg_s := reg_s st + 1\<rparr>;
          st2 = st1\<lparr>mem := mem_write (mem st1) (ucast (reg_s st1)) hi, reg_s := reg_s st1 + 1\<rparr>
      in JMP st2)"

text \<open>
  \<^verbatim>\<open>void Cpu::LSR()\<close>: \<^verbatim>\<open>uint8_t data = read() >> 1;\<close> and then the setters receive the
  shifted byte; \<^verbatim>\<open>setNegative\<close> receives the literal \<^verbatim>\<open>false\<close>.
\<close>

definition LSR :: "cpu \<Rightarrow> cpu" where
  "LSR st =
     (let data = drop_bit 1 (read st);
          st1 = st\<lparr>reg_p := setNegative_flag False
                              (setCarry (ucast data) (setZero (ucast data) (reg_p st)))\<rparr>
      in write_data data st1)"

definition PHA :: "cpu \<Rightarrow> cpu" where
  "PHA st = st\<lparr>mem := mem_write (mem st) (ucast (reg_s st)) (reg_a st), reg_s := reg_s st + 1\<rparr>"

definition PHP :: "cpu \<Rightarrow> cpu" where
  "PHP st = st\<lparr>mem := mem_write (mem st) (ucast (reg_s st)) (status_byte (reg_p st)),
               reg_s := reg_s st + 1\<rparr>"

definition PLA :: "cpu \<Rightarrow> cpu" where
  "PLA st =
     (let st1 = st\<lparr>reg_a := mem_read (mem st) (ucast (reg_s st)), reg_s := reg_s st + 1\<rparr>
      in st1\<lparr>reg_p := setZero (ucast (reg_a st1)) (setNegative (ucast (reg_a st1)) (reg_p st1))\<rparr>)"

definition PLP :: "cpu \<Rightarrow> cpu" where
  "PLP st = st\<lparr>reg_p := status_assign (mem_read (mem st) (ucast (reg_s st))) (reg_p st),
               reg_s := reg_s st + 1\<rparr>"

text \<open>\<^verbatim>\<open>void Cpu::INX()\<close>: \<^verbatim>\<open>x++; p.setNegative (x); p.setZero (x);\<close>\<close>

definition INX :: "cpu \<Rightarrow> cpu" where
  "INX st =
     (let st1 = st\<lparr>reg_x := reg_x st + 1\<rparr>
      in st1\<lparr>reg_p := setZero (ucast (reg_x st1))
                          (setNegative (ucast (reg_x st1)) (reg_p st1))\<rparr>)"

subsection \<open>Step driver\<close>

text \<open>
  Modelled from the spec: the class \<^verbatim>\<open>Command\<close> is not part of \<^verbatim>\<open>cpu.cc\<close>. An entry bundles
  an addressing-mode resolver, an operation and the accumulator-mode bit, and executing
  it runs the resolver and then the operation.
\<close>

record command =
  cmd_mode :: "cpu \<Rightarrow> cpu"
  cmd_oper :: "cpu \<Rightarrow> cpu"
  cmd_acc :: bool

definition execute :: "command \<Rightarrow> cpu \<Rightarrow> cpu" where
  "execute c st = cmd_oper c (cmd_mode c st)"

text \<open>
  \<^verbatim>\<open>void Cpu::clock ()\<close>: \<^verbatim>\<open>auto code = mem -> read(pc++); auto oper = map -> getCommand(code);
  cmd = &oper; oper.execute(this);\<close> The decode table \<^verbatim>\<open>Map\<close> is not part of \<^verbatim>\<open>cpu.cc\<close> and is
  the parameter \<open>getCommand\<close>. The call of the trace sink that ends the function only
  observes the core and is left out. The function returns nothing.
\<close>

definition clock :: "(byte \<Rightarrow> command) \<Rightarrow> cpu \<Rightarrow> cpu" where
  "clock getCommand st =
     (let code = mem_read (mem st) (reg_pc st);
          st1 = st\<lparr>reg_pc := reg_pc st + 1\<rparr>;
          oper = getCommand code;
          st2 = st1\<lparr>cmd_isAcc := cmd_acc oper\<rparr>
      in execute oper st2)"

subsection \<open>What a resolver may leave untouched\<close>

text \<open>
  \<open>frame_kept st st'\<close>: going from \<open>st\<close> to \<open>st'\<close> the registers A, X, Y, the stack pointer
  and the status word keep their values, every memory cell keeps its value and the trace
  of issued writes has not grown.
\<close>

definition frame_kept :: "cpu \<Rightarrow> cpu \<Rightarrow> bool" where
  "frame_kept st st' =
     (reg_a st' = reg_a st \<and> reg_x st' = reg_x st \<and> reg_y st' = reg_y st \<and>
      reg_s st' = reg_s st \<and> reg_p st' = reg_p st \<and>
      cells (mem st') = cells (mem st) \<and> writes (mem st') = writes (mem st))"

subsection \<open>Concrete machine states\<close>

text \<open>
  A core with every register zero over a memory of zero bytes, and the states at which
  single operations are evaluated below. Each is the blank core with a few registers
  and cells set.
\<close>

definition blank_bus :: bus where
  "blank_bus = \<lparr>cells = (\<lambda>_. 0x00), writes = []\<rparr>"

definition blank_cpu :: cpu where
  "blank_cpu = \<lparr>reg_a = 0x00, reg_x = 0x00, reg_y = 0x00, reg_s = 0x00, reg_p = 0x00,
                 reg_pc = 0x0000, reg_op = 0x0000, cmd_isAcc = False, mem = blank_bus\<rparr>"

definition adc_input :: cpu where
  "adc_input = blank_cpu\<lparr>reg_a := 0x7F, reg_op := 0x0010,
                 mem := blank_bus\<lparr>cells := (\<lambda>_. 0x00)(0x0010 := 0x01)\<rparr>\<rparr>"

definition cmp_input :: cpu where
  "cmp_input = blank_cpu\<lparr>reg_a := 0x80, reg_op := 0x0010\<rparr>"

definition cmp_example :: cpu where
  "cmp_example = blank_cpu\<lparr>reg_a := 0x40, reg_op := 0x0010,
                   mem := blank_bus\<lparr>cells := (\<lambda>_. 0x00)(0x0010 := 0x41)\<rparr>\<rparr>"

definition jsr_input :: cpu where
  "jsr_input = blank_cpu\<lparr>reg_s := 0xFD, reg_pc := 0x8003, reg_op := 0x9000\<rparr>"

definition pha_input :: cpu where
  "pha_input = blank_cpu\<lparr>reg_a := 0x42, reg_s := 0x00\<rparr>"

definition reset_input :: cpu where
  "reset_input = blank_cpu\<lparr>reg_s := 0x42,
                   mem := blank_bus\<lparr>cells := (\<lambda>_. 0x00)(0xFFFC := 0x00, 0xFFFD := 0x80)\<rparr>\<rparr>"

definition indy_input :: cpu where
  "indy_input = blank_cpu\<lparr>reg_y := 0x01, reg_pc := 0x8001,
                  mem := blank_bus\<lparr>cells :=
                    (\<lambda>_. 0x00)(0x8001 := 0x10, 0x0010 := 0xFF, 0x0011 := 0x12)\<rparr>\<rparr>"

definition lsr_input :: cpu where
  "lsr_input = blank_cpu\<lparr>reg_a := 0x01, cmd_isAcc := True\<rparr>"

definition jam_input :: cpu where
  "jam_input = blank_cpu\<lparr>reg_pc := 0x8001\<rparr>"

text \<open>
  A decode table that holds the two entries the opcode tables in the comments of
  \<^verbatim>\<open>cpu.cc\<close> give for \<open>0x02\<close> (JAM) and \<open>0xE8\<close> (INX, implied) and an implied NOP everywhere
  else, and a memory with these two opcodes at \<open>0x8000\<close> and \<open>0x8001\<close>.
\<close>

definition jam_map :: "byte \<Rightarrow> command" where
  "jam_map code =
     (if code = 0x02 then \<lparr>cmd_mode = IMP, cmd_oper = JAM, cmd_acc = False\<rparr>
      else if code = 0xE8 then \<lparr>cmd_mode = IMP, cmd_oper = INX, cmd_acc = False\<rparr>
      else \<lparr>cmd_mode = IMP, cmd_oper = NOP, cmd_acc = False\<rparr>)"

definition jam_program :: cpu where
  "jam_program = blank_cpu\<lparr>reg_pc := 0x8000,
                   mem := blank_bus\<lparr>cells := (\<lambda>_. 0x00)(0x8000 := 0x02, 0x8001 := 0xE8)\<rparr>\<rparr>"

section \<open>Properties\<close>

subsection \<open>Flags and bytes\<close>

lemmas flag_defs = isCarry_def isZero_def isInterrupt_def isDecimal_def isBreak_def
  isOverflow_def isNegative_def setNegative_def setZero_def setCarry_def
  setNegative_flag_def setZero_flag_def setCarry_flag_def setOverflow_def

lemmas input_defs = blank_bus_def blank_cpu_def adc_input_def cmp_input_def cmp_example_def
  jsr_input_def pha_input_def reset_input_def indy_input_def
  lsr_input_def jam_input_def

lemmas mem_defs = mem_read_def mem_write_def read_word_le_def mem_abs_def mem_abs_idx_def
  mem_zpg_def mem_zpg_idx_def mem_indirect_def zp_word_def mem_indexed_x_def mem_indexed_def

text \<open>Writing one flag changes that bit of the status word and no other.\<close>

lemma bit_set_flag: "bit (set_flag n b p) m = (if m = n then b \<and> n < 8 else bit p m)"
  by (auto simp add: set_flag_def bit_simps dest: bit_imp_le_length)

text \<open>
  Assigning a byte to the status word sets bit 5, keeps bit 4 and copies the other bits.
\<close>

lemma bit_status_assign:
  "bit (status_assign v p) n =
     (if n = 5 then True else if n = 4 then bit p 4 else bit v n)"
  by (simp add: status_assign_def isBreak_def bit_set_flag)

text \<open>Narrowing the 16-bit sum of two widened bytes gives the wrapping 8-bit sum.\<close>

lemma ucast_sum:
  "(ucast ((ucast (a::byte) :: addr) + ucast (m::byte) + c) :: byte) = a + m + ucast c"
  by (simp add: word_unat_eq_iff unat_word_ariths unsigned_ucast_eq take_bit_eq_mod
      mod_simps mod_mod_cancel)

lemma ucast_byte_le: "(ucast (v::byte) :: addr) \<le> 0xFF"
proof -
  have "unat v < 256" using unsigned_less [of v] by simp
  then show ?thesis by (simp add: word_le_nat_alt unsigned_ucast_eq take_bit_eq_mod)
qed

lemma low_byte_zero: "((v :: addr) AND 0xFF = 0) = ((ucast v :: byte) = 0)"
proof -
  have m: "(0xFF :: addr) = mask 8" by (simp add: mask_eq_exp_minus_1)
  have "(\<forall>n<16. bit v n \<longrightarrow> \<not> n < 8) = (\<forall>n<8. \<not> bit v n)"
  proof
    assume a: "\<forall>n<16. bit v n \<longrightarrow> \<not> n < 8"
    show "\<forall>n<8. \<not> bit v n"
    proof (intro allI impI)
      fix n :: nat
      assume n: "n < 8"
      then have "n < 16" by simp
      with a n show "\<not> bit v n" by blast
    qed
  next
    assume "\<forall>n<8. \<not> bit v n"
    then show "\<forall>n<16. bit v n \<longrightarrow> \<not> n < 8" by blast
  qed
  then show ?thesis
    unfolding m
    by (simp add: bit_eq_iff bit_simps)
qed

lemma reg_p_write_data: "reg_p (write_data d st) = reg_p st"
  by (simp add: write_data_def)

lemma ucast_low_byte: "(ucast (0xFF AND (v::addr)) :: byte) = ucast v"
proof -
  have m: "(0xFF :: addr) = mask 8" by (simp add: mask_eq_exp_minus_1)
  show ?thesis
    unfolding m by (auto simp add: bit_eq_iff bit_simps)
qed

subsection \<open>ADC\<close>

text \<open>
  What \<open>ADC_arg\<close> does for every accumulator, operand and carry: the accumulator becomes
  the wrapping sum, C tells whether the 16-bit sum exceeds \<open>0xFF\<close>, N and Z describe the new
  accumulator, and the overflow flag keeps the value it had.
\<close>

lemma ADC_arg_a: "reg_a (ADC_arg m st) = reg_a st + m + (if isCarry (reg_p st) then 1 else 0)"
  by (simp add: ADC_arg_def Let_def getCarry_def ucast_sum)

lemma ADC_arg_carry:
  "isCarry (reg_p (ADC_arg m st)) =
     (0xFF < (ucast (reg_a st) + ucast m + getCarry (reg_p st) :: addr))"
  by (simp add: ADC_arg_def Let_def flag_defs bit_set_flag)

lemma ADC_arg_negative: "isNegative (reg_p (ADC_arg m st)) = bit (reg_a (ADC_arg m st)) 7"
  by (simp add: ADC_arg_def Let_def flag_defs bit_set_flag bit_ucast_iff)

lemma ADC_arg_zero: "isZero (reg_p (ADC_arg m st)) = (reg_a (ADC_arg m st) = 0)"
  by (simp add: ADC_arg_def Let_def flag_defs bit_set_flag low_byte_zero)

lemma ADC_arg_overflow: "isOverflow (reg_p (ADC_arg m st)) = isOverflow (reg_p st)"
  by (simp add: ADC_arg_def Let_def flag_defs bit_set_flag)

text \<open>
  C1. ADC is to set V exactly when \<open>((A ^ r) & (M ^ r) & 0x80) \<noteq> 0\<close> for the 8-bit result
  \<open>r\<close>. With A = \<open>0x7F\<close>, operand \<open>0x01\<close> and carry clear the result is \<open>0x80\<close> and that
  expression is non-zero, yet the overflow flag is still clear after \<open>ADC\<close>: the function
  never writes V.
\<close>

theorem ADC_overflow_not_updated:
  "reg_a adc_input = 0x7F \<and> read adc_input = 0x01 \<and> \<not> isCarry (reg_p adc_input) \<and>
   reg_a (ADC adc_input) = 0x80 \<and>
   (reg_a adc_input XOR reg_a (ADC adc_input)) AND (read adc_input XOR reg_a (ADC adc_input))
      AND 0x80 \<noteq> 0 \<and>
   \<not> isOverflow (reg_p (ADC adc_input))"
  by (simp add: input_defs ADC_def ADC_arg_def read_def mem_defs Let_def getCarry_def
      flag_defs bit_set_flag)

subsection \<open>CMP, CPX, CPY\<close>

lemma CMP_arg_flags:
  "isCarry (reg_p (CMP_arg r st)) = (read st \<le> r) \<and>
   isZero (reg_p (CMP_arg r st)) = (r = read st) \<and>
   isNegative (reg_p (CMP_arg r st)) = (r < read st)"
  by (auto simp add: CMP_arg_def Let_def flag_defs bit_set_flag)

text \<open>
  C2, as stated: N after a compare is bit 7 of the low byte of \<open>reg - M\<close>. With A = \<open>0x80\<close>
  and operand \<open>0x00\<close> the difference is \<open>0x80\<close>, whose bit 7 is set, while \<open>CMP\<close> leaves N
  clear.
\<close>

theorem compare_negative_counterexample:
  "reg_a cmp_input = 0x80 \<and> read cmp_input = 0x00 \<and>
   isNegative (reg_p (CMP cmp_input)) \<noteq>
     bit ((ucast (reg_a cmp_input) :: addr) - ucast (read cmp_input)) 7"
  by (simp add: input_defs CMP_def CMP_arg_def read_def mem_defs Let_def flag_defs bit_set_flag)

text \<open>
  C2, amended: for every register value (A for CMP, X for CPX, Y for CPY) and fetched
  operand M, the compare sets C exactly when \<open>reg \<ge> M\<close>, Z exactly when \<open>reg = M\<close>, and N
  exactly when \<open>reg < M\<close> as unsigned bytes; CMP with A = \<open>0x40\<close> and M = \<open>0x41\<close> yields
  N = 1, Z = 0, C = 0.
\<close>

theorem compare_flags:
  "isCarry (reg_p (CMP st)) = (read st \<le> reg_a st) \<and>
   isZero (reg_p (CMP st)) = (reg_a st = read st) \<and>
   isNegative (reg_p (CMP st)) = (reg_a st < read st) \<and>
   isCarry (reg_p (CPX st)) = (read st \<le> reg_x st) \<and>
   isZero (reg_p (CPX st)) = (reg_x st = read st) \<and>
   isNegative (reg_p (CPX st)) = (reg_x st < read st) \<and>
   isCarry (reg_p (CPY st)) = (read st \<le> reg_y st) \<and>
   isZero (reg_p (CPY st)) = (reg_y st = read st) \<and>
   isNegative (reg_p (CPY st)) = (reg_y st < read st) \<and>
   reg_a cmp_example = 0x40 \<and> read cmp_example = 0x41 \<and>
   isNegative (reg_p (CMP cmp_example)) \<and> \<not> isZero (reg_p (CMP cmp_example)) \<and>
   \<not> isCarry (reg_p (CMP cmp_example))"
proof -
  have ex: "reg_a cmp_example = 0x40 \<and> read cmp_example = 0x41"
    by (simp add: input_defs read_def mem_defs)
  then have "isNegative (reg_p (CMP cmp_example)) \<and> \<not> isZero (reg_p (CMP cmp_example)) \<and>
     \<not> isCarry (reg_p (CMP cmp_example))"
    by (simp add: CMP_def CMP_arg_flags)
  with ex show ?thesis by (simp add: CMP_def CPX_def CPY_def CMP_arg_flags)
qed

subsection \<open>JSR\<close>

text \<open>
  For every state, \<open>JSR\<close> issues two writes, the low byte of PC to the address S and the
  high byte of PC to the address S + 1 (both in page zero), adds 2 to S and loads PC from
  the operand cell.
\<close>

lemma JSR_effect:
  "writes (mem (JSR st)) =
     writes (mem st) @ [(ucast (reg_s st), ucast (reg_pc st)),
                        (ucast (reg_s st + 1), ucast (drop_bit 8 (reg_pc st)))] \<and>
   reg_s (JSR st) = reg_s st + 2 \<and> reg_pc (JSR st) = reg_op st"
  by (simp add: JSR_def JMP_def mem_defs Let_def ucast_low_byte)

text \<open>
  C3. JSR is to push PC - 1, high byte first, at \<open>0x0100 | S\<close> with S decremented after each
  push. With PC = \<open>0x8003\<close> (the JSR opcode at \<open>0x8000\<close>, its operand consumed), S = \<open>0xFD\<close>
  and target \<open>0x9000\<close> that is \<open>0x80\<close> to \<open>0x01FD\<close>, then \<open>0x02\<close> to \<open>0x01FC\<close>, and S = \<open>0xFB\<close>.
  \<open>JSR\<close> writes the low byte \<open>0x03\<close> of PC itself to \<open>0x00FD\<close>, then the high byte to
  \<open>0x00FE\<close>, and leaves S = \<open>0xFF\<close>; PC does become the target.
\<close>

theorem JSR_pushes_upward:
  "reg_pc jsr_input = 0x8003 \<and> reg_s jsr_input = 0xFD \<and> reg_op jsr_input = 0x9000 \<and>
   writes (mem (JSR jsr_input)) = [(0x00FD, 0x03), (0x00FE, 0x80)] \<and>
   reg_s (JSR jsr_input) = 0xFF \<and> reg_pc (JSR jsr_input) = 0x9000"
  by (simp add: input_defs JSR_def JMP_def mem_defs Let_def)

subsection \<open>PHA and PLA\<close>

text \<open>
  For every state, \<open>PHA\<close> writes A to the address S and then adds 1 to S, and \<open>PLA\<close> reads A
  from the address S and then adds 1 to S.
\<close>

lemma PHA_effect:
  "writes (mem (PHA st)) = writes (mem st) @ [(ucast (reg_s st), reg_a st)] \<and>
   reg_s (PHA st) = reg_s st + 1 \<and> reg_a (PHA st) = reg_a st \<and> reg_p (PHA st) = reg_p st"
  by (simp add: PHA_def mem_defs)

lemma PLA_effect:
  "reg_a (PLA st) = mem_read (mem st) (ucast (reg_s st)) \<and> reg_s (PLA st) = reg_s st + 1 \<and>
   mem (PLA st) = mem st"
  by (simp add: PLA_def Let_def)

text \<open>
  C4. PHA with S = \<open>0x00\<close> is to write A to \<open>0x0100\<close> and leave S = \<open>0xFF\<close>, and PLA is to
  take back what PHA stored. With A = \<open>0x42\<close> and S = \<open>0x00\<close>, \<open>PHA\<close> writes to \<open>0x0000\<close> and
  leaves S = \<open>0x01\<close>; the \<open>PLA\<close> that follows reads the cell \<open>0x0001\<close> above the stored byte,
  so A becomes \<open>0x00\<close>, and S moves on to \<open>0x02\<close>.
\<close>

theorem PHA_PLA_same_direction:
  "reg_a pha_input = 0x42 \<and> reg_s pha_input = 0x00 \<and>
   writes (mem (PHA pha_input)) = [(0x0000, 0x42)] \<and> reg_s (PHA pha_input) = 0x01 \<and>
   reg_a (PLA (PHA pha_input)) = 0x00 \<and> reg_s (PLA (PHA pha_input)) = 0x02"
  by (simp add: input_defs PHA_def PLA_def mem_defs Let_def)

subsection \<open>PHP and PLP\<close>

text \<open>
  For every state, \<open>PHP\<close> issues one write, of the status word read as a byte, to the
  address S and adds 1 to S; \<open>PLP\<close> assigns the byte at the address S to the status word
  and adds 1 to S.
\<close>

lemma PHP_effect:
  "writes (mem (PHP st)) = writes (mem st) @ [(ucast (reg_s st), status_byte (reg_p st))] \<and>
   reg_s (PHP st) = reg_s st + 1 \<and> reg_p (PHP st) = reg_p st"
  by (simp add: PHP_def mem_defs)

lemma PLP_effect:
  "reg_p (PLP st) = status_assign (mem_read (mem st) (ucast (reg_s st))) (reg_p st) \<and>
   reg_s (PLP st) = reg_s st + 1 \<and> mem (PLP st) = mem st"
  by (simp add: PLP_def)


subsection \<open>reset\<close>

text \<open>
  C6, as stated: after reset A, X and Y are 0, S is \<open>0xFD\<close>, P is \<open>0x24\<close> and PC is the word
  at \<open>0xFFFC\<close>. From a state whose reset vector holds \<open>0x8000\<close> this conjunction fails.
\<close>

theorem reset_counterexample:
  "\<not> (reg_a (reset reset_input) = 0x00 \<and> reg_x (reset reset_input) = 0x00 \<and>
      reg_y (reset reset_input) = 0x00 \<and> reg_s (reset reset_input) = 0xFD \<and>
      reg_p (reset reset_input) = 0x24 \<and>
      reg_pc (reset reset_input) = read_word_le (mem (reset reset_input)) 0xFFFC)"
  by (simp add: input_defs reset_def)

text \<open>
  C6, amended: after reset the registers A, X and Y and the stack pointer S are \<open>0x00\<close>,
  the status word has been assigned the byte \<open>0x00\<close>, so that its flags N, V, D, I, Z and
  C are all clear, and PC is \<open>0x0000\<close>.
\<close>

theorem reset_clears:
  "reg_a (reset st) = 0x00 \<and> reg_x (reset st) = 0x00 \<and> reg_y (reset st) = 0x00 \<and>
   reg_s (reset st) = 0x00 \<and>
   reg_p (reset st) = status_assign 0x00 (reg_p st) \<and>
   \<not> isNegative (reg_p (reset st)) \<and> \<not> isOverflow (reg_p (reset st)) \<and>
   \<not> isDecimal (reg_p (reset st)) \<and> \<not> isInterrupt (reg_p (reset st)) \<and>
   \<not> isZero (reg_p (reset st)) \<and> \<not> isCarry (reg_p (reset st)) \<and>
   reg_pc (reset st) = 0x0000"
  by (simp add: reset_def flag_defs bit_status_assign)

subsection \<open>INDY\<close>

text \<open>The operand that \<open>INDY\<close> resolves always lies in page zero.\<close>

lemma INDY_op_low: "reg_op (INDY st) \<le> 0x00FF"
  by (simp add: INDY_def word_and_le2 split: prod.split)

text \<open>
  C7. INDY is to set the operand to the 16-bit word at the zero-page pointer plus Y, the
  carry of the addition reaching the high byte. With the pointer \<open>0x10\<close> holding the word
  \<open>0x12FF\<close> and Y = \<open>0x01\<close> that is \<open>0x1300\<close>; \<open>INDY\<close> sets the operand to \<open>0x0000\<close>.
\<close>

theorem INDY_masks_low_byte:
  "fst (mem_indexed (mem indy_input) (reg_pc indy_input)) = 0x12FF \<and>
   reg_y indy_input = 0x01 \<and>
   fst (mem_indexed (mem indy_input) (reg_pc indy_input)) + ucast (reg_y indy_input) = 0x1300 \<and>
   reg_op (INDY indy_input) = 0x0000"
  by (simp add: input_defs INDY_def mem_defs)

subsection \<open>LSR\<close>

text \<open>Whatever the input byte, the carry flag is clear after \<open>LSR\<close>.\<close>

lemma LSR_carry_clear: "\<not> isCarry (reg_p (LSR st))"
  using ucast_byte_le [of "drop_bit 1 (read st)"]
  by (simp add: LSR_def Let_def reg_p_write_data flag_defs bit_set_flag not_less)

text \<open>
  C8. LSR is to set C to bit 0 of the byte before the shift. In accumulator mode with
  A = \<open>0x01\<close> bit 0 of the input is set; \<open>LSR\<close> stores \<open>0x00\<close>, sets Z, clears N, and leaves C
  clear.
\<close>

theorem LSR_loses_carry:
  "read lsr_input = 0x01 \<and> bit (read lsr_input) 0 \<and>
   reg_a (LSR lsr_input) = 0x00 \<and> \<not> isCarry (reg_p (LSR lsr_input)) \<and>
   isZero (reg_p (LSR lsr_input)) \<and> \<not> isNegative (reg_p (LSR lsr_input))"
  by (simp add: input_defs LSR_def read_def write_data_def Let_def flag_defs bit_set_flag)

subsection \<open>JAM\<close>

text \<open>\<open>JAM\<close> returns the state it was given, for every state.\<close>

lemma JAM_identity: "JAM st = st"
  by (simp add: JAM_def NOP_def)

text \<open>
  With the JAM opcode \<open>0x02\<close> at \<open>0x8000\<close> and INX at \<open>0x8001\<close>, the step after the JAM runs
  the INX: X goes from 0 to 1 and PC moves on to \<open>0x8002\<close>.
\<close>

lemma clock_after_JAM:
  "reg_pc (clock jam_map jam_program) = 0x8001 \<and>
   reg_x (clock jam_map jam_program) = 0x00 \<and>
   reg_pc (clock jam_map (clock jam_map jam_program)) = 0x8002 \<and>
   reg_x (clock jam_map (clock jam_map jam_program)) = 0x01"
  by (simp add: clock_def execute_def jam_map_def jam_program_def input_defs mem_defs Let_def
      IMP_def JAM_def NOP_def INX_def)

text \<open>
  C9. A JAM opcode is to latch the core into a halted state that lasts until reset. The
  state after \<open>JAM\<close> is the state before it, field for field: nothing records that the
  opcode ran, so the next instruction is fetched and executed as after a NOP.
\<close>

theorem JAM_changes_nothing: "JAM jam_input = jam_input"
  by (simp add: JAM_def NOP_def)

subsection \<open>Addressing-mode resolvers\<close>

text \<open>
  C10. Each of the thirteen addressing-mode resolvers changes at most the operand cell
  and the program counter: A, X, Y, S and P keep their values, no memory cell changes and
  no write is issued.
\<close>

theorem resolvers_frame:
  "frame_kept st (IMP st) \<and> frame_kept st (ACC st) \<and> frame_kept st (IMM st) \<and>
   frame_kept st (ZPG st) \<and> frame_kept st (ZPGX st) \<and> frame_kept st (ZPGY st) \<and>
   frame_kept st (ABS st) \<and> frame_kept st (ABSX st) \<and> frame_kept st (ABSY st) \<and>
   frame_kept st (IND st) \<and> frame_kept st (INDX st) \<and> frame_kept st (INDY st) \<and>
   frame_kept st (REL st)"
  by (simp add: frame_kept_def IMP_def ACC_def IMM_def ZPG_def ZPGX_def ZPGY_def ABS_def
      ABSX_def ABSY_def IND_def INDX_def INDY_def REL_def split: prod.split)

end
